theory Spec2Isabelle
  imports Main "HOL-Library.AList"
begin

section \<open>Python strings\<close>

text \<open>
  A Python \<open>str\<close> is modelled as a \<open>string\<close>; a \<open>char\<close> stands for a code point
  below 256, and \<open>length\<close> counts code points as \<open>len\<close> does.
\<close>

definition newline :: char where
  "newline = CHR 0x0A"

text \<open>\<open>str.isspace\<close> on code points below 256.\<close>

definition isspace :: "char \<Rightarrow> bool" where
  "isspace c =
     (let n = (of_char c :: nat)
      in (9 \<le> n \<and> n \<le> 13) \<or> (28 \<le> n \<and> n \<le> 32) \<or> n = 133 \<or> n = 160)"

text \<open>\<open>str.strip()\<close>: whitespace removed at both ends.\<close>

definition strip :: "string \<Rightarrow> string" where
  "strip s = rev (dropWhile isspace (rev (dropWhile isspace s)))"

text \<open>\<open>str.lower()\<close> on code points below 256.\<close>

definition lower_char :: "char \<Rightarrow> char" where
  "lower_char c =
     (let n = (of_char c :: nat)
      in if (65 \<le> n \<and> n \<le> 90) \<or> (192 \<le> n \<and> n \<le> 222 \<and> n \<noteq> 215)
         then char_of (n + 32) else c)"

definition lower :: "string \<Rightarrow> string" where
  "lower s = map lower_char s"

text \<open>\<open>sub in s\<close> on strings: \<open>sub\<close> occurs in \<open>s\<close> as a contiguous run.\<close>

fun contains :: "string \<Rightarrow> string \<Rightarrow> bool" where
  "contains sub [] = (sub = [])"
| "contains sub (c # cs) = (take (length sub) (c # cs) = sub \<or> contains sub cs)"

section \<open>The URL validator\<close>

text \<open>
  The constructs of \<open>re\<close> that \<open>linkedin_pattern\<close> uses. \<open>Bol\<close> is \<open>^\<close> and
  \<open>Eol\<close> is \<open>$\<close>, both without \<open>re.MULTILINE\<close>; \<open>Cls\<close> is a character class given
  by its ranges; \<open>Grp\<close> is a parenthesised sequence; \<open>PlusCls\<close> is a class under \<open>+\<close>.
\<close>

datatype rx =
    Bol
  | Eol
  | Chr char
  | Cls "(char \<times> char) list"
  | PlusCls "(char \<times> char) list"
  | Opt rx
  | Grp "rx list"

definition in_class :: "(char \<times> char) list \<Rightarrow> char \<Rightarrow> bool" where
  "in_class rs c =
     list_ex (\<lambda>(lo, hi). (of_char lo :: nat) \<le> of_char c \<and> (of_char c :: nat) \<le> of_char hi) rs"

fun rx_size :: "rx \<Rightarrow> nat" where
  "rx_size (Opt r) = Suc (rx_size r)"
| "rx_size (Grp rs) = Suc (sum_list (map rx_size rs))"
| "rx_size r = 1"

text \<open>
  \<open>rx_match k bol s\<close>: the sequence \<open>k\<close> matches a prefix of \<open>s\<close>, where \<open>bol\<close> says
  that \<open>s\<close> starts at position 0 of the subject. Every alternative is tried, as the
  backtracking of \<open>re\<close> does. \<open>$\<close> holds at the end of the subject and just before a
  newline that ends the subject.
\<close>

function rx_match :: "rx list \<Rightarrow> bool \<Rightarrow> string \<Rightarrow> bool" where
  "rx_match [] bol s = True"
| "rx_match (Bol # k) bol s = (bol \<and> rx_match k bol s)"
| "rx_match (Eol # k) bol s = ((s = [] \<or> s = [newline]) \<and> rx_match k bol s)"
| "rx_match (Chr c # k) bol [] = False"
| "rx_match (Chr c # k) bol (x # xs) = (x = c \<and> rx_match k False xs)"
| "rx_match (Cls rs # k) bol [] = False"
| "rx_match (Cls rs # k) bol (x # xs) = (in_class rs x \<and> rx_match k False xs)"
| "rx_match (PlusCls rs # k) bol [] = False"
| "rx_match (PlusCls rs # k) bol (x # xs) =
     (in_class rs x \<and> (rx_match (PlusCls rs # k) False xs \<or> rx_match k False xs))"
| "rx_match (Opt r # k) bol s = (rx_match (r # k) bol s \<or> rx_match k bol s)"
| "rx_match (Grp rs # k) bol s = rx_match (rs @ k) bol s"
  by pat_completeness auto
termination
  by (relation "measures [\<lambda>(k, bol, s). length s, \<lambda>(k, bol, s). sum_list (map rx_size k)]") auto

definition lit :: "string \<Rightarrow> rx list" where
  "lit s = map Chr s"

text \<open>
  \<^verbatim>\<open>linkedin_pattern = r'^https?:\/\/(www\.)?linkedin\.com\/in\/[a-zA-Z0-9\-]+\/?$'\<close>
\<close>

definition linkedin_pattern :: "rx list" where
  "linkedin_pattern =
     [Bol] @ lit ''http'' @ [Opt (Chr CHR ''s'')] @ lit ''://''
     @ [Opt (Grp (lit ''www.''))] @ lit ''linkedin.com/in/''
     @ [PlusCls [(CHR ''a'', CHR ''z''), (CHR ''A'', CHR ''Z''), (CHR ''0'', CHR ''9''),
                 (CHR ''-'', CHR ''-'')],
        Opt (Chr CHR ''/''), Eol]"

text \<open>\<open>re.match(pattern, url)\<close> matches at position 0; \<open>bool\<close> of the match object.\<close>

definition is_valid_linkedin_url :: "string \<Rightarrow> bool" where
  "is_valid_linkedin_url url = rx_match linkedin_pattern True url"

section \<open>Exceptions, records and effects\<close>

text \<open>
  The code raises \<open>Exception(message)\<close> throughout; \<open>requests\<close> raises subclasses of
  \<open>RequestException\<close>, which \<open>extract_profile_data\<close> handles apart. \<open>str_exn\<close> is \<open>str(e)\<close>.
\<close>

datatype exn = RequestException string | Exception string

fun str_exn :: "exn \<Rightarrow> string" where
  "str_exn (RequestException m) = m"
| "str_exn (Exception m) = m"

type_synonym 'a result = "exn + 'a"

text \<open>
  A profile record is a \<open>dict\<close> from field name to a string or a list of strings, kept
  in insertion order; \<open>d[k] = v\<close> is \<open>AList.update k v d\<close>.
\<close>

datatype field = Str string | StrList "string list"

type_synonym profile = "(string \<times> field) list"

text \<open>What a run does to the outside, in order.\<close>

datatype event =
    BrowserLaunch
  | BrowserGet string
  | BrowserScreenshot
  | BrowserQuit
  | HttpGet string
  | ParseHtml

section \<open>The parsed document\<close>

text \<open>
  The tree \<open>BeautifulSoup(response.text, 'html.parser')\<close> returns: a tag has a name,
  its \<open>id\<close> attribute, the list of its classes and its contents.
\<close>

datatype node =
    NavigableString string
  | Comment string
  | Tag string "string option" "string list" "node list"

text \<open>The tags and strings below a node, in document order.\<close>

fun descendants :: "node \<Rightarrow> node list" where
  "descendants (Tag name ident classes contents) =
     concat (map (\<lambda>c. c # descendants c) contents)"
| "descendants (NavigableString s) = []"
| "descendants (Comment s) = []"

text \<open>\<open>get_text()\<close> and the \<open>.text\<close> property: the strings below a node, joined.\<close>

fun get_text :: "node \<Rightarrow> string" where
  "get_text (NavigableString s) = s"
| "get_text (Comment s) = []"
| "get_text (Tag name ident classes contents) = concat (map get_text contents)"

text \<open>A compound selector \<open>tag.class\<close>, and a selector list \<open>a.b, c.d\<close>.\<close>

type_synonym selector = "(string \<times> string) list"

fun css_matches :: "string \<times> string \<Rightarrow> node \<Rightarrow> bool" where
  "css_matches (t, c) (Tag name ident classes contents) = (name = t \<and> c \<in> set classes)"
| "css_matches (t, c) (NavigableString s) = False"
| "css_matches (t, c) (Comment s) = False"

text \<open>\<open>select_one\<close>: the first element in document order that matches the selector list.\<close>

definition select_one :: "node \<Rightarrow> selector \<Rightarrow> node option" where
  "select_one soup sel = find (\<lambda>d. list_ex (\<lambda>sc. css_matches sc d) sel) (descendants soup)"

text \<open>\<open>find(name, {'id': v})\<close> and \<open>find(names, class_=classes)\<close>, \<open>find_all\<close> likewise.\<close>

fun has_name_id :: "string \<Rightarrow> string \<Rightarrow> node \<Rightarrow> bool" where
  "has_name_id n v (Tag name ident classes contents) = (name = n \<and> ident = Some v)"
| "has_name_id n v (NavigableString s) = False"
| "has_name_id n v (Comment s) = False"

fun has_name_class :: "string list \<Rightarrow> string list \<Rightarrow> node \<Rightarrow> bool" where
  "has_name_class names cls (Tag name ident classes contents) =
     (name \<in> set names \<and> list_ex (\<lambda>c. c \<in> set classes) cls)"
| "has_name_class names cls (NavigableString s) = False"
| "has_name_class names cls (Comment s) = False"

definition find_by_id :: "node \<Rightarrow> string \<Rightarrow> string \<Rightarrow> node option" where
  "find_by_id soup n v = find (has_name_id n v) (descendants soup)"

definition find_by_class :: "node \<Rightarrow> string list \<Rightarrow> string list \<Rightarrow> node option" where
  "find_by_class soup names cls = find (has_name_class names cls) (descendants soup)"

definition find_all_by_class :: "node \<Rightarrow> string list \<Rightarrow> string list \<Rightarrow> node list" where
  "find_all_by_class soup names cls = filter (has_name_class names cls) (descendants soup)"

section \<open>The HTTP fetcher\<close>

record response =
  status_code :: int
  reason :: string
  resp_url :: string
  resp_text :: string

function show_nat :: "nat \<Rightarrow> string" where
  "show_nat n =
     (if n < 10 then [char_of (48 + n)]
      else show_nat (n div 10) @ [char_of (48 + n mod 10)])"
  by pat_completeness auto
termination
  by (relation "measure id") auto

text \<open>\<open>response.raise_for_status()\<close>: an \<open>HTTPError\<close> for a status from 400 to 599.\<close>

definition raise_for_status :: "response \<Rightarrow> exn option" where
  "raise_for_status r =
     (if 400 \<le> status_code r \<and> status_code r < 500
      then Some (RequestException (show_nat (nat (status_code r)) @ '' Client Error: ''
                   @ reason r @ '' for url: '' @ resp_url r))
      else if 500 \<le> status_code r \<and> status_code r < 600
      then Some (RequestException (show_nat (nat (status_code r)) @ '' Server Error: ''
                   @ reason r @ '' for url: '' @ resp_url r))
      else None)"

section \<open>The browser-driven extractor\<close>

text \<open>
  What the live browser answers to each call \<open>get_profile_data_with_selenium\<close> makes:
  \<open>None\<close> or \<open>Inr\<close> when the call returns, the exception when it raises. A field's
  answer is the \<open>.text\<close> of the element the wait or \<open>find_element\<close> located; a section's
  answer is the list of its items, each with the \<open>.text\<close> of its two sub-elements. The
  random delays, the user agent and the two "show more" clicks (whose failure is
  swallowed) change no answer and are left out.
\<close>

record browser =
  chrome_launch :: "exn option"
  driver_get :: "string \<Rightarrow> exn option"
  wait_body :: "exn option"
  name_text :: "string result"
  headline_text :: "string result"
  about_text :: "string result"
  experience_items :: "(string result \<times> string result) list result"
  education_items :: "(string result \<times> string result) list result"
  skill_items :: "string result list result"
  language_items :: "(string result \<times> string result) list result"
  save_screenshot :: "exn option"

text \<open>The scalar fields: the stripped text, or \<open>"Not found"\<close> when the lookup raised.\<close>

definition scalar_field :: "string result \<Rightarrow> field" where
  "scalar_field r = (case r of Inr t \<Rightarrow> Str (strip t) | Inl e \<Rightarrow> Str ''Not found'')"

text \<open>
  The loops over the items of a section. An item whose first or second lookup raises
  is skipped by the \<open>except\<close> inside the loop.
\<close>

fun collect_pairs :: "string \<Rightarrow> (string result \<times> string result) list \<Rightarrow> string list \<Rightarrow> string list" where
  "collect_pairs sep [] acc = acc"
| "collect_pairs sep ((Inr a, Inr b) # items) acc =
     collect_pairs sep items (acc @ [strip a @ sep @ strip b])"
| "collect_pairs sep ((Inr a, Inl e) # items) acc = collect_pairs sep items acc"
| "collect_pairs sep ((Inl e, b) # items) acc = collect_pairs sep items acc"

fun collect_skills :: "string result list \<Rightarrow> string list \<Rightarrow> string list" where
  "collect_skills [] skills = skills"
| "collect_skills (Inr t # items) skills =
     (if strip t \<noteq> [] then collect_skills items (skills @ [strip t])
      else collect_skills items skills)"
| "collect_skills (Inl e # items) skills = collect_skills items skills"

fun collect_languages :: "(string result \<times> string result) list \<Rightarrow> string list \<Rightarrow> string list" where
  "collect_languages [] languages = languages"
| "collect_languages ((Inr l, Inr p) # items) languages =
     collect_languages items (languages @ [strip l @ '' - '' @ strip p])"
| "collect_languages ((Inr l, Inl e) # items) languages =
     collect_languages items (languages @ [strip l @ '' - '' @ ''Proficiency not specified''])"
| "collect_languages ((Inl e, p) # items) languages = collect_languages items languages"

text \<open>A list field: what was collected, or the placeholder when nothing was.\<close>

definition list_field :: "string \<Rightarrow> string list result \<Rightarrow> field" where
  "list_field placeholder r =
     (case r of
        Inr found \<Rightarrow> if found \<noteq> [] then StrList found else StrList [placeholder]
      | Inl e \<Rightarrow> StrList [placeholder])"

definition map_result :: "('a \<Rightarrow> 'b) \<Rightarrow> 'a result \<Rightarrow> 'b result" where
  "map_result f r = (case r of Inl e \<Rightarrow> Inl e | Inr x \<Rightarrow> Inr (f x))"

text \<open>Lines 216 to 409: the fields, in the order the code sets them.\<close>

definition selenium_fields :: "browser \<Rightarrow> profile" where
  "selenium_fields b =
     (let profile_data = [];
          profile_data = AList.update ''name'' (scalar_field (name_text b)) profile_data;
          profile_data = AList.update ''headline'' (scalar_field (headline_text b)) profile_data;
          profile_data = AList.update ''about'' (scalar_field (about_text b)) profile_data;
          profile_data = AList.update ''experience''
            (list_field ''No experience information found''
               (map_result (\<lambda>items. collect_pairs '' at '' items []) (experience_items b)))
            profile_data;
          profile_data = AList.update ''education''
            (list_field ''No education information found''
               (map_result (\<lambda>items. collect_pairs '' - '' items []) (education_items b)))
            profile_data;
          profile_data = AList.update ''skills''
            (list_field ''No skills information found''
               (map_result (\<lambda>items. collect_skills items []) (skill_items b)))
            profile_data
      in case language_items b of
           Inr items \<Rightarrow>
             (if collect_languages items [] \<noteq> []
              then AList.update ''languages'' (StrList (collect_languages items [])) profile_data
              else profile_data)
         | Inl e \<Rightarrow> profile_data)"

text \<open>Lines 199 to 415: the body of the outer \<open>try\<close>.\<close>

definition selenium_try :: "browser \<Rightarrow> string \<Rightarrow> profile result \<times> event list" where
  "selenium_try b url =
     (case chrome_launch b of
        Some e \<Rightarrow> (Inl e, [BrowserLaunch])
      | None \<Rightarrow>
          (case driver_get b url of
             Some e \<Rightarrow> (Inl e, [BrowserLaunch, BrowserGet url])
           | None \<Rightarrow>
               (case wait_body b of
                  Some e \<Rightarrow> (Inl e, [BrowserLaunch, BrowserGet url])
                | None \<Rightarrow>
                    (case save_screenshot b of
                       Some e \<Rightarrow> (Inl e, [BrowserLaunch, BrowserGet url, BrowserScreenshot])
                     | None \<Rightarrow>
                         (Inr (selenium_fields b),
                          [BrowserLaunch, BrowserGet url, BrowserScreenshot])))))"

text \<open>Lines 417 to 425: the record the outer \<open>except\<close> returns.\<close>

definition failure_record :: "exn \<Rightarrow> profile" where
  "failure_record e =
     [(''name'', Str ''Error retrieving profile''),
      (''headline'', Str (''Error: '' @ str_exn e)),
      (''experience'', StrList [''Unable to retrieve experience information'']),
      (''education'', StrList [''Unable to retrieve education information'']),
      (''skills'', StrList [''Unable to retrieve skills information''])]"

text \<open>
  The whole function: the \<open>try\<close>, its \<open>except Exception\<close> and the \<open>finally\<close>, where
  \<open>driver.quit()\<close> reaches the browser only if the launch bound \<open>driver\<close> (any failure
  of it is swallowed).
\<close>

definition get_profile_data_with_selenium :: "browser \<Rightarrow> string \<Rightarrow> profile result \<times> event list" where
  "get_profile_data_with_selenium b url =
     (case selenium_try b url of
        (r, events) \<Rightarrow>
          ((case r of Inl e \<Rightarrow> Inr (failure_record e) | Inr profile_data \<Rightarrow> Inr profile_data),
           events @ (if chrome_launch b = None then [BrowserQuit] else [])))"

section \<open>The static extractor\<close>

definition error_indicators :: "string list" where
  "error_indicators = [''captcha'', ''please verify'', ''interrupted'', ''unavailable'']"

text \<open>The loop over \<open>error_indicators\<close>: the first one found in the page text raises.\<close>

fun check_indicators :: "string list \<Rightarrow> string \<Rightarrow> exn option" where
  "check_indicators [] page_text = None"
| "check_indicators (indicator # rest) page_text =
     (if contains indicator page_text
      then Some (Exception (''Access restricted: '' @ indicator @ '' check required''))
      else check_indicators rest page_text)"

definition name_selectors :: "selector list" where
  "name_selectors =
     [[(''h1'', ''text-heading-xlarge'')], [(''h1'', ''top-card-layout__title'')],
      [(''h1'', ''basic-info__name'')]]"

text \<open>The loop over the name selectors, with its \<open>name_found\<close> flag.\<close>

fun extract_name :: "selector list \<Rightarrow> node \<Rightarrow> bool \<Rightarrow> profile \<Rightarrow> profile" where
  "extract_name [] soup name_found profile_data = profile_data"
| "extract_name (sel # rest) soup name_found profile_data =
     (if name_found then profile_data
      else (case select_one soup sel of
              None \<Rightarrow> extract_name rest soup False profile_data
            | Some name_elem \<Rightarrow>
                if strip (get_text name_elem) \<noteq> []
                then extract_name rest soup True
                       (AList.update ''name'' (Str (strip (get_text name_elem))) profile_data)
                else extract_name rest soup False profile_data))"

definition headline_selector :: selector where
  "headline_selector =
     [(''div'', ''text-body-medium''), (''h2'', ''top-card-layout__headline''),
      (''div'', ''basic-info__headline'')]"

definition about_selector :: selector where
  "about_selector = [(''div'', ''about-section''), (''div'', ''summary-section'')]"

text \<open>A scalar field set when its element exists (a tag is truthy whatever its text).\<close>

definition extract_scalar :: "string \<Rightarrow> selector \<Rightarrow> node \<Rightarrow> profile \<Rightarrow> profile" where
  "extract_scalar key sel soup profile_data =
     (case select_one soup sel of
        Some elem \<Rightarrow> AList.update key (Str (strip (get_text elem))) profile_data
      | None \<Rightarrow> profile_data)"

text \<open>
  Lines 479 to 500 of the second definition of \<open>extract_profile_data\<close>, the one the
  module binds: name, headline and about. Nothing follows its comment
  \<^verbatim>\<open># Extract experience section\<close>.
\<close>

definition extract_fields :: "node \<Rightarrow> profile" where
  "extract_fields soup =
     (let profile_data = [];
          profile_data = extract_name name_selectors soup False profile_data;
          profile_data = extract_scalar ''headline'' headline_selector soup profile_data;
          profile_data = extract_scalar ''about'' about_selector soup profile_data
      in profile_data)"

text \<open>Lines 140 to 147 of the first definition: the loop over the experience items.\<close>

fun collect_experience :: "node list \<Rightarrow> string list \<Rightarrow> string list" where
  "collect_experience [] experiences = experiences"
| "collect_experience (item # exp_items) experiences =
     (case find_by_class item [''h3'', ''span''] [''title'', ''t-bold''] of
        None \<Rightarrow> collect_experience exp_items experiences
      | Some role \<Rightarrow>
          (case find_by_class item [''p'', ''span''] [''company'', ''t-normal''] of
             None \<Rightarrow> collect_experience exp_items experiences
           | Some company \<Rightarrow>
               collect_experience exp_items
                 (experiences @ [strip (get_text role) @ '' at '' @ strip (get_text company)])))"

text \<open>Lines 132 to 150 of the first definition.\<close>

definition experience_section :: "node \<Rightarrow> node option" where
  "experience_section soup =
     (case find_by_id soup ''section'' ''experience-section'' of
        Some section \<Rightarrow> Some section
      | None \<Rightarrow> find_by_class soup [''div''] [''experience-section''])"

definition extract_experience :: "node \<Rightarrow> profile \<Rightarrow> profile" where
  "extract_experience soup profile_data =
     (case experience_section soup of
        None \<Rightarrow> profile_data
      | Some section \<Rightarrow>
          (let experiences =
                 collect_experience
                   (find_all_by_class section [''li'', ''div''] [''experience-item'', ''position-item''])
                   []
           in if experiences \<noteq> [] then AList.update ''experience'' (StrList experiences) profile_data
              else profile_data))"

text \<open>Lines 109 to 150 of the first definition, which the second one shadows.\<close>

definition extract_fields_first :: "node \<Rightarrow> profile" where
  "extract_fields_first soup = extract_experience soup (extract_fields soup)"

text \<open>
  The body of the \<open>try\<close> of \<open>extract_profile_data\<close>, the same in both definitions but
  for the fields: \<open>http\<close> is \<open>session.get(url, timeout=30)\<close>, \<open>parse\<close> is
  \<open>BeautifulSoup(_, 'html.parser')\<close>.
\<close>

definition extract_try ::
  "(node \<Rightarrow> profile) \<Rightarrow> (string \<Rightarrow> response result) \<Rightarrow> (string \<Rightarrow> node) \<Rightarrow> browser \<Rightarrow> string
     \<Rightarrow> profile result \<times> event list" where
  "extract_try field_extractor http parse b url =
     (case http url of
        Inl e \<Rightarrow> (Inl e, [HttpGet url])
      | Inr response \<Rightarrow>
          if status_code response = 999
          then (case get_profile_data_with_selenium b url of
                  (r, events) \<Rightarrow> (r, HttpGet url # events))
          else (case raise_for_status response of
                  Some e \<Rightarrow> (Inl e, [HttpGet url])
                | None \<Rightarrow>
                    if length (resp_text response) < 1000
                    then (Inl (Exception ''Invalid response content''), [HttpGet url])
                    else (let soup = parse (resp_text response);
                              page_text = lower (get_text soup)
                          in case check_indicators error_indicators page_text of
                               Some e \<Rightarrow> (Inl e, [HttpGet url, ParseHtml])
                             | None \<Rightarrow>
                                 (let profile_data = field_extractor soup
                                  in if profile_data = []
                                     then (Inl (Exception ''Failed to extract any profile data''),
                                           [HttpGet url, ParseHtml])
                                     else (Inr profile_data, [HttpGet url, ParseHtml])))))"

text \<open>The two \<open>except\<close> clauses: both raise a plain \<open>Exception\<close>.\<close>

fun reraise :: "exn \<Rightarrow> exn" where
  "reraise (RequestException m) = Exception (''Failed to access profile: '' @ m)"
| "reraise (Exception m) = Exception m"

definition handle_extract :: "profile result \<times> event list \<Rightarrow> profile result \<times> event list" where
  "handle_extract out =
     (case out of (Inl e, events) \<Rightarrow> (Inl (reraise e), events)
                | (Inr profile_data, events) \<Rightarrow> (Inr profile_data, events))"

text \<open>The first definition (lines 62 to 164), shadowed at import.\<close>

definition extract_profile_data_first ::
  "(string \<Rightarrow> response result) \<Rightarrow> (string \<Rightarrow> node) \<Rightarrow> browser \<Rightarrow> string
     \<Rightarrow> profile result \<times> event list" where
  "extract_profile_data_first http parse b url =
     handle_extract (extract_try extract_fields_first http parse b url)"

text \<open>The second definition (lines 432 to 516): what \<open>extract_profile_data\<close> names.\<close>

definition extract_profile_data ::
  "(string \<Rightarrow> response result) \<Rightarrow> (string \<Rightarrow> node) \<Rightarrow> browser \<Rightarrow> string
     \<Rightarrow> profile result \<times> event list" where
  "extract_profile_data http parse b url =
     handle_extract (extract_try extract_fields http parse b url)"

section \<open>The orchestrator\<close>

text \<open>
  \<open>scrape_linkedin_profile\<close> over the two functions it calls by name:
  \<open>selenium\<close> for \<open>get_profile_data_with_selenium\<close>, \<open>fallback\<close> for
  \<open>extract_profile_data\<close>.
\<close>

definition scrape_with ::
  "(string \<Rightarrow> profile result \<times> event list) \<Rightarrow> (string \<Rightarrow> profile result \<times> event list) \<Rightarrow> string
     \<Rightarrow> profile result \<times> event list" where
  "scrape_with selenium fallback url =
     (if \<not> is_valid_linkedin_url url
      then (Inl (Exception ''Invalid LinkedIn profile URL''), [])
      else (case selenium url of
              (Inr profile_data, events) \<Rightarrow> (Inr profile_data, events)
            | (Inl e, events) \<Rightarrow>
                (case fallback url of
                   (Inr profile_data, events') \<Rightarrow> (Inr profile_data, events @ events')
                 | (Inl fallback_error, events') \<Rightarrow>
                     (Inl (Exception (''Failed to extract profile data: '' @ str_exn e)),
                      events @ events'))))"

definition scrape_linkedin_profile ::
  "(string \<Rightarrow> response result) \<Rightarrow> (string \<Rightarrow> node) \<Rightarrow> browser \<Rightarrow> string
     \<Rightarrow> profile result \<times> event list" where
  "scrape_linkedin_profile http parse b url =
     scrape_with (get_profile_data_with_selenium b) (extract_profile_data http parse b) url"

text \<open>The value a run returned under a key: \<open>None\<close> when it raised or has no such key.\<close>

definition returned_field :: "profile result \<times> event list \<Rightarrow> string \<Rightarrow> field option" where
  "returned_field out key = (case fst out of Inr profile_data \<Rightarrow> map_of profile_data key | Inl e \<Rightarrow> None)"

text \<open>What a selector yields on a document: the trimmed text of the element \<open>select_one\<close>
  returns, empty when there is none.\<close>

definition selector_text :: "node \<Rightarrow> selector \<Rightarrow> string" where
  "selector_text soup sel =
     (case select_one soup sel of None \<Rightarrow> [] | Some elem \<Rightarrow> strip (get_text elem))"

text \<open>The entry an experience item contributes in the first definition: \<open>"<role> at <company>"\<close>
  when it has both sub-elements, none otherwise.\<close>

definition item_entry :: "node \<Rightarrow> string list" where
  "item_entry item =
     (case find_by_class item [''h3'', ''span''] [''title'', ''t-bold''] of
        None \<Rightarrow> []
      | Some role \<Rightarrow>
          (case find_by_class item [''p'', ''span''] [''company'', ''t-normal''] of
             None \<Rightarrow> []
           | Some company \<Rightarrow> [strip (get_text role) @ '' at '' @ strip (get_text company)]))"

section \<open>The profile URL shape of the specification\<close>

text \<open>
  The specification's words for a valid profile URL:
  \<open>(http|https)://(www.)?linkedin.com/in/<slug>(/)?\<close>, anchored at both ends, the slug one
  or more alphanumerics or hyphens. \<open>profile_url_shape\<close> states them; it is compared
  with \<open>is_valid_linkedin_url\<close> below.
\<close>

definition slug_char :: "char \<Rightarrow> bool" where
  "slug_char c =
     (let n = (of_char c :: nat)
      in (48 \<le> n \<and> n \<le> 57) \<or> (65 \<le> n \<and> n \<le> 90) \<or> (97 \<le> n \<and> n \<le> 122) \<or> n = 45)"

definition profile_url_shape :: "string \<Rightarrow> bool" where
  "profile_url_shape url =
     (\<exists>scheme www slug slash.
        url = scheme @ ''://'' @ www @ ''linkedin.com/in/'' @ slug @ slash
        \<and> (scheme = ''http'' \<or> scheme = ''https'')
        \<and> (www = [] \<or> www = ''www.'')
        \<and> slug \<noteq> [] \<and> list_all slug_char slug
        \<and> (slash = [] \<or> slash = ''/''))"

text \<open>The character class of the pattern, and what may follow the host part of a URL: a
  slug and an optional slash (\<open>spec_tail\<close>), or these and a final newline as well
  (\<open>url_tail\<close>).\<close>

definition slug_class :: "(char \<times> char) list" where
  "slug_class = [(CHR ''a'', CHR ''z''), (CHR ''A'', CHR ''Z''), (CHR ''0'', CHR ''9''),
                 (CHR ''-'', CHR ''-'')]"

definition spec_tail :: "string \<Rightarrow> bool" where
  "spec_tail q =
     (\<exists>slug slash. q = slug @ slash \<and> slug \<noteq> [] \<and> list_all slug_char slug
        \<and> (slash = [] \<or> slash = ''/''))"

definition url_tail :: "string \<Rightarrow> bool" where
  "url_tail r =
     (\<exists>slug tail. r = slug @ tail \<and> slug \<noteq> [] \<and> list_all slug_char slug
        \<and> (tail = [] \<or> tail = ''/'' \<or> tail = [newline] \<or> tail = ''/'' @ [newline]))"

section \<open>Example inputs\<close>

text \<open>Concrete inputs at which the theorems below are instantiated and evaluated.\<close>

definition example_url :: string where
  "example_url = ''https://www.linkedin.com/in/ada-lovelace''"

definition blocked_response :: response where
  "blocked_response = \<lparr>status_code = 999, reason = ''Request denied'', resp_url = example_url, resp_text = ''''\<rparr>"

definition short_response :: response where
  "short_response = \<lparr>status_code = 200, reason = ''OK'', resp_url = example_url, resp_text = ''<h1 class=text-heading-xlarge>Ada</h1>''\<rparr>"

definition bare_browser :: browser where
  "bare_browser =
     \<lparr>chrome_launch = None, driver_get = (\<lambda>u. None), wait_body = None,
      name_text = Inl (Exception ''timeout''), headline_text = Inl (Exception ''timeout''),
      about_text = Inl (Exception ''no such element''),
      experience_items = Inl (Exception ''no such element''),
      education_items = Inl (Exception ''timeout''),
      skill_items = Inl (Exception ''no such element''),
      language_items = Inl (Exception ''no such element''),
      save_screenshot = None\<rparr>"

definition crashed_browser :: browser where
  "crashed_browser = bare_browser\<lparr>save_screenshot := Some (Exception ''invalid session id'')\<rparr>"

definition no_driver_browser :: browser where
  "no_driver_browser = bare_browser\<lparr>chrome_launch := Some (Exception ''chromedriver not found'')\<rparr>"

definition captcha_response :: response where
  "captcha_response = \<lparr>status_code = 200, reason = ''OK'', resp_url = example_url, resp_text = ''<p>captcha</p>''\<rparr>"

definition captcha_doc :: node where
  "captcha_doc = Tag ''[document]'' None [] [Tag ''p'' None [] [NavigableString ''captcha'']]"

definition verify_response :: response where
  "verify_response =
     \<lparr>status_code = 200, reason = ''OK'', resp_url = example_url,
      resp_text = ''<h1 class=text-heading-xlarge>Ada</h1><p>Please Verify you are human</p><!--''
                  @ replicate 1000 CHR ''x'' @ ''-->''\<rparr>"

definition verify_doc :: node where
  "verify_doc =
     Tag ''[document]'' None []
       [Tag ''h1'' None [''text-heading-xlarge''] [NavigableString ''Ada''],
        Tag ''p'' None [] [NavigableString ''Please Verify you are human''],
        Comment (replicate 1000 CHR ''x'')]"

definition profile_response :: response where
  "profile_response =
     \<lparr>status_code = 200, reason = ''OK'', resp_url = example_url,
      resp_text =
        ''<h1 class=text-heading-xlarge> Ada Lovelace </h1><div class=text-body-medium></div>''
        @ ''<section id=experience-section><li class=experience-item><h3 class=title>Engineer</h3>''
        @ ''<p class=company>Acme</p></li><li class=experience-item><h3 class=title>Clerk</h3></li>''
        @ ''</section><!--'' @ replicate 1000 CHR ''x'' @ ''-->''\<rparr>"

definition profile_doc :: node where
  "profile_doc =
     Tag ''[document]'' None []
       [Tag ''h1'' None [''text-heading-xlarge''] [NavigableString '' Ada Lovelace ''],
        Tag ''div'' None [''text-body-medium''] [],
        Tag ''section'' (Some ''experience-section'') []
          [Tag ''li'' None [''experience-item'']
             [Tag ''h3'' None [''title''] [NavigableString ''Engineer''],
              Tag ''p'' None [''company''] [NavigableString ''Acme'']],
           Tag ''li'' None [''experience-item'']
             [Tag ''h3'' None [''title''] [NavigableString ''Clerk'']]],
        Comment (replicate 1000 CHR ''x'')]"

definition title_response :: response where
  "title_response =
     \<lparr>status_code = 200, reason = ''OK'', resp_url = example_url,
      resp_text =
        ''<h1 class=text-heading-xlarge>  </h1><h1 class=top-card-layout__title>Grace Hopper</h1>''
        @ ''<h1 class=basic-info__name>G. Hopper</h1><!--'' @ replicate 1000 CHR ''x'' @ ''-->''\<rparr>"

definition title_doc :: node where
  "title_doc =
     Tag ''[document]'' None []
       [Tag ''h1'' None [''text-heading-xlarge''] [NavigableString ''  ''],
        Tag ''h1'' None [''top-card-layout__title''] [NavigableString ''Grace Hopper''],
        Tag ''h1'' None [''basic-info__name''] [NavigableString ''G. Hopper''],
        Comment (replicate 1000 CHR ''x'')]"

definition blank_name_browser :: browser where
  "blank_name_browser = bare_browser\<lparr>name_text := Inr ''  ''\<rparr>"

section \<open>Properties\<close>

subsection \<open>The browser-driven extractor always returns\<close>

lemma selenium_fst:
  "fst (get_profile_data_with_selenium b url) =
     (case fst (selenium_try b url) of Inl e \<Rightarrow> Inr (failure_record e) | Inr pd \<Rightarrow> Inr pd)"
  by (simp add: get_profile_data_with_selenium_def split: prod.splits)

lemma selenium_returns: "\<exists>pd. fst (get_profile_data_with_selenium b url) = Inr pd"
  by (simp add: selenium_fst split: sum.splits)

lemma selenium_try_events:
  "set (snd (selenium_try b url)) \<subseteq> {BrowserLaunch, BrowserGet url, BrowserScreenshot}"
  by (auto simp: selenium_try_def split: option.splits)

lemma selenium_events:
  "set (snd (get_profile_data_with_selenium b url))
     \<subseteq> {BrowserLaunch, BrowserGet url, BrowserScreenshot, BrowserQuit}"
  using selenium_try_events [of b url]
  by (auto simp: get_profile_data_with_selenium_def split: prod.splits)

subsection \<open>The anti-bot status\<close>

text \<open>
  C4. When the HTTP fetch returns status code 999, \<open>extract_profile_data\<close> returns what
  \<open>get_profile_data_with_selenium\<close> returns, which is a record and never a failure, and
  the fetched body is never parsed: the static extraction is not entered.
\<close>

theorem antibot_status_routes_to_browser:
  assumes "http url = Inr response" and "status_code response = 999"
  shows "extract_profile_data http parse b url =
           (fst (get_profile_data_with_selenium b url),
            HttpGet url # snd (get_profile_data_with_selenium b url))
         \<and> (\<exists>pd. fst (extract_profile_data http parse b url) = Inr pd)
         \<and> ParseHtml \<notin> set (snd (extract_profile_data http parse b url))"
proof -
  obtain pd where pd: "fst (get_profile_data_with_selenium b url) = Inr pd"
    using selenium_returns by blast
  have eq: "extract_profile_data http parse b url =
           (fst (get_profile_data_with_selenium b url),
            HttpGet url # snd (get_profile_data_with_selenium b url))"
    using assms pd
    by (cases "get_profile_data_with_selenium b url")
       (simp add: extract_profile_data_def extract_try_def handle_extract_def)
  have "ParseHtml \<notin> set (snd (get_profile_data_with_selenium b url))"
    using selenium_events [of b url] by auto
  with eq pd show ?thesis by simp
qed

theorem antibot_status_routes_to_browser_witness:
  "extract_profile_data (\<lambda>u. Inr blocked_response) (\<lambda>t. NavigableString t) bare_browser example_url =
     (fst (get_profile_data_with_selenium bare_browser example_url),
      HttpGet example_url # snd (get_profile_data_with_selenium bare_browser example_url))
   \<and> (\<exists>pd. fst (extract_profile_data (\<lambda>u. Inr blocked_response) (\<lambda>t. NavigableString t) bare_browser example_url) = Inr pd)
   \<and> ParseHtml \<notin> set (snd (extract_profile_data (\<lambda>u. Inr blocked_response) (\<lambda>t. NavigableString t) bare_browser example_url))"
proof -
  have h: "(\<lambda>u. Inr blocked_response) example_url = Inr blocked_response"
    by simp
  have s: "status_code blocked_response = 999"
    by (simp add: blocked_response_def)
  show ?thesis
    by (rule antibot_status_routes_to_browser [OF h s])
qed

subsection \<open>The length gate\<close>

text \<open>
  C5. A fetched body of fewer than 1000 characters makes the static extractor raise
  \<open>Invalid response content\<close>, whatever the parser would find in it: the body is not
  parsed and no field is extracted.
\<close>

theorem short_body_is_invalid_content:
  assumes "http url = Inr response"
    and "status_code response \<noteq> 999"
    and "\<not> (400 \<le> status_code response \<and> status_code response < 600)"
    and "length (resp_text response) < 1000"
  shows "extract_profile_data http parse b url =
           (Inl (Exception ''Invalid response content''), [HttpGet url])"
  using assms
  by (auto simp: extract_profile_data_def extract_try_def handle_extract_def raise_for_status_def)

theorem short_body_is_invalid_content_witness:
  "extract_profile_data (\<lambda>u. Inr short_response) (\<lambda>t. Tag ''[document]'' None [] [Tag ''h1'' None [''text-heading-xlarge''] [NavigableString ''Ada'']]) bare_browser example_url =
           (Inl (Exception ''Invalid response content''), [HttpGet example_url])"
  using short_body_is_invalid_content [of "\<lambda>u. Inr short_response" example_url short_response _ bare_browser]
  by (simp add: short_response_def)

subsection \<open>The browser-driven extractor never raises\<close>

lemma example_url_valid: "is_valid_linkedin_url example_url"
  by (simp add: is_valid_linkedin_url_def linkedin_pattern_def lit_def in_class_def example_url_def)

lemma failure_record_keys:
  "list_all (\<lambda>k. map_of (failure_record e) k \<noteq> None)
     [''name'', ''headline'', ''experience'', ''education'', ''skills'']"
  by (simp add: failure_record_def)

lemma map_of_selenium_fields:
  "map_of (selenium_fields b) ''name'' = Some (scalar_field (name_text b))"
  "map_of (selenium_fields b) ''headline'' = Some (scalar_field (headline_text b))"
  "map_of (selenium_fields b) ''about'' = Some (scalar_field (about_text b))"
  "map_of (selenium_fields b) ''experience'' =
     Some (list_field ''No experience information found''
             (map_result (\<lambda>items. collect_pairs '' at '' items []) (experience_items b)))"
  "map_of (selenium_fields b) ''education'' =
     Some (list_field ''No education information found''
             (map_result (\<lambda>items. collect_pairs '' - '' items []) (education_items b)))"
  "map_of (selenium_fields b) ''skills'' =
     Some (list_field ''No skills information found''
             (map_result (\<lambda>items. collect_skills items []) (skill_items b)))"
  by (simp_all add: selenium_fields_def Let_def update_conv' split: sum.splits)

lemma selenium_keys:
  "\<exists>pd. fst (get_profile_data_with_selenium b url) = Inr pd
     \<and> list_all (\<lambda>k. map_of pd k \<noteq> None)
         [''name'', ''headline'', ''experience'', ''education'', ''skills'']"
proof (cases "fst (selenium_try b url)")
  case (Inl e)
  then show ?thesis
    using failure_record_keys [of e] by (simp add: selenium_fst)
next
  case (Inr pd)
  then have "pd = selenium_fields b"
    by (auto simp: selenium_try_def split: option.splits)
  with Inr show ?thesis
    by (simp add: selenium_fst map_of_selenium_fields)
qed

lemma scrape_with_selenium:
  assumes "is_valid_linkedin_url url"
  shows "scrape_with (get_profile_data_with_selenium b) fallback url =
           get_profile_data_with_selenium b url"
proof -
  obtain pd where "fst (get_profile_data_with_selenium b url) = Inr pd"
    using selenium_returns by blast
  then show ?thesis
    using assms by (cases "get_profile_data_with_selenium b url") (simp add: scrape_with_def)
qed

text \<open>
  C10. \<open>get_profile_data_with_selenium\<close> never raises: it returns a record that has the keys
  name, headline, experience, education and skills. When the body of its \<open>try\<close> raises
  (the driver launch, the navigation, the wait for the page or the screenshot after the
  extraction), the record is the one of the \<open>except\<close> clause: name
  \<open>Error retrieving profile\<close>, headline \<open>Error: \<close> followed by the message of the
  exception, and the lists \<open>Unable to retrieve experience information\<close>,
  \<open>Unable to retrieve education information\<close>, \<open>Unable to retrieve skills information\<close>.
  So for a URL that passes validation \<open>scrape_linkedin_profile\<close> returns the
  browser-driven result whatever the fallback is, and makes no HTTP fetch.
\<close>

theorem selenium_never_raises:
  "(\<exists>pd. fst (get_profile_data_with_selenium b url) = Inr pd
      \<and> list_all (\<lambda>k. map_of pd k \<noteq> None)
          [''name'', ''headline'', ''experience'', ''education'', ''skills''])
   \<and> (\<forall>e. fst (selenium_try b url) = Inl e
            \<or> chrome_launch b = Some e
            \<or> (chrome_launch b = None \<and> driver_get b url = Some e)
            \<or> (chrome_launch b = None \<and> driver_get b url = None \<and> wait_body b = Some e)
            \<or> (chrome_launch b = None \<and> driver_get b url = None \<and> wait_body b = None
                  \<and> save_screenshot b = Some e)
          \<longrightarrow> fst (get_profile_data_with_selenium b url) =
                Inr [(''name'', Str ''Error retrieving profile''),
                     (''headline'', Str (''Error: '' @ str_exn e)),
                     (''experience'', StrList [''Unable to retrieve experience information'']),
                     (''education'', StrList [''Unable to retrieve education information'']),
                     (''skills'', StrList [''Unable to retrieve skills information''])])
   \<and> (is_valid_linkedin_url url
        \<longrightarrow> (\<forall>fallback. scrape_with (get_profile_data_with_selenium b) fallback url =
                          get_profile_data_with_selenium b url)
          \<and> scrape_linkedin_profile http parse b url = get_profile_data_with_selenium b url
          \<and> HttpGet url \<notin> set (snd (scrape_linkedin_profile http parse b url)))"
proof -
  have a: "fst (get_profile_data_with_selenium b url) =
                Inr [(''name'', Str ''Error retrieving profile''),
                     (''headline'', Str (''Error: '' @ str_exn e)),
                     (''experience'', StrList [''Unable to retrieve experience information'']),
                     (''education'', StrList [''Unable to retrieve education information'']),
                     (''skills'', StrList [''Unable to retrieve skills information''])]"
    if "fst (selenium_try b url) = Inl e" for e
    using that by (simp add: selenium_fst failure_record_def)
  have l: "fst (selenium_try b url) = Inl e"
    if "chrome_launch b = Some e
          \<or> (chrome_launch b = None \<and> driver_get b url = Some e)
          \<or> (chrome_launch b = None \<and> driver_get b url = None \<and> wait_body b = Some e)
          \<or> (chrome_launch b = None \<and> driver_get b url = None \<and> wait_body b = None
                \<and> save_screenshot b = Some e)" for e
    using that by (auto simp: selenium_try_def)
  have "HttpGet url \<notin> set (snd (get_profile_data_with_selenium b url))"
    using selenium_events [of b url] by auto
  then have s: "is_valid_linkedin_url url
        \<longrightarrow> (\<forall>fallback. scrape_with (get_profile_data_with_selenium b) fallback url =
                          get_profile_data_with_selenium b url)
          \<and> scrape_linkedin_profile http parse b url = get_profile_data_with_selenium b url
          \<and> HttpGet url \<notin> set (snd (scrape_linkedin_profile http parse b url))"
    by (simp add: scrape_linkedin_profile_def scrape_with_selenium)
  show ?thesis
    using selenium_keys [of b url] a l s by blast
qed

theorem selenium_never_raises_witness:
  "fst (get_profile_data_with_selenium no_driver_browser example_url) =
     Inr [(''name'', Str ''Error retrieving profile''),
          (''headline'', Str ''Error: chromedriver not found''),
          (''experience'', StrList [''Unable to retrieve experience information'']),
          (''education'', StrList [''Unable to retrieve education information'']),
          (''skills'', StrList [''Unable to retrieve skills information''])]
   \<and> fst (get_profile_data_with_selenium crashed_browser example_url) =
     Inr [(''name'', Str ''Error retrieving profile''),
          (''headline'', Str ''Error: invalid session id''),
          (''experience'', StrList [''Unable to retrieve experience information'']),
          (''education'', StrList [''Unable to retrieve education information'']),
          (''skills'', StrList [''Unable to retrieve skills information''])]
   \<and> scrape_linkedin_profile (\<lambda>u. Inr short_response) NavigableString no_driver_browser example_url =
       get_profile_data_with_selenium no_driver_browser example_url
   \<and> HttpGet example_url
       \<notin> set (snd (scrape_linkedin_profile (\<lambda>u. Inr short_response) NavigableString no_driver_browser example_url))"
proof -
  have l: "chrome_launch no_driver_browser = Some (Exception ''chromedriver not found'')"
    by (simp add: no_driver_browser_def)
  have c: "chrome_launch crashed_browser = None \<and> driver_get crashed_browser example_url = None
             \<and> wait_body crashed_browser = None
             \<and> save_screenshot crashed_browser = Some (Exception ''invalid session id'')"
    by (simp add: crashed_browser_def bare_browser_def)
  have n: "fst (get_profile_data_with_selenium no_driver_browser example_url) =
     Inr [(''name'', Str ''Error retrieving profile''),
          (''headline'', Str (''Error: '' @ str_exn (Exception ''chromedriver not found''))),
          (''experience'', StrList [''Unable to retrieve experience information'']),
          (''education'', StrList [''Unable to retrieve education information'']),
          (''skills'', StrList [''Unable to retrieve skills information''])]"
    using selenium_never_raises [of no_driver_browser example_url "\<lambda>u. Inr short_response" NavigableString]
      l by blast
  have k: "fst (get_profile_data_with_selenium crashed_browser example_url) =
     Inr [(''name'', Str ''Error retrieving profile''),
          (''headline'', Str (''Error: '' @ str_exn (Exception ''invalid session id''))),
          (''experience'', StrList [''Unable to retrieve experience information'']),
          (''education'', StrList [''Unable to retrieve education information'']),
          (''skills'', StrList [''Unable to retrieve skills information''])]"
    using selenium_never_raises [of crashed_browser example_url "\<lambda>u. Inr short_response" NavigableString]
      c by blast
  have v: "scrape_linkedin_profile (\<lambda>u. Inr short_response) NavigableString no_driver_browser example_url =
       get_profile_data_with_selenium no_driver_browser example_url
   \<and> HttpGet example_url
       \<notin> set (snd (scrape_linkedin_profile (\<lambda>u. Inr short_response) NavigableString no_driver_browser example_url))"
    using selenium_never_raises [of no_driver_browser example_url "\<lambda>u. Inr short_response" NavigableString]
      example_url_valid by blast
  have n': "fst (get_profile_data_with_selenium no_driver_browser example_url) =
     Inr [(''name'', Str ''Error retrieving profile''),
          (''headline'', Str ''Error: chromedriver not found''),
          (''experience'', StrList [''Unable to retrieve experience information'']),
          (''education'', StrList [''Unable to retrieve education information'']),
          (''skills'', StrList [''Unable to retrieve skills information''])]"
    using n by simp
  have k': "fst (get_profile_data_with_selenium crashed_browser example_url) =
     Inr [(''name'', Str ''Error retrieving profile''),
          (''headline'', Str ''Error: invalid session id''),
          (''experience'', StrList [''Unable to retrieve experience information'']),
          (''education'', StrList [''Unable to retrieve education information'']),
          (''skills'', StrList [''Unable to retrieve skills information''])]"
    using k by simp
  show ?thesis
    using n' k' v by blast
qed

subsection \<open>The failures of the orchestrator\<close>

text \<open>
  The \<open>except\<close> clause of \<open>scrape_linkedin_profile\<close>, read on its own with the two
  attempts as parameters, raises \<open>Failed to extract profile data: \<close> followed by the
  message of the browser failure when both attempts fail. With the browser-driven
  extractor of this module the clause is never entered: the only failure
  \<open>scrape_linkedin_profile\<close> raises is the one for an invalid URL.
\<close>

lemma scrape_with_both_fail:
  assumes "is_valid_linkedin_url url"
    and "selenium url = (Inl e, events)"
    and "fallback url = (Inl fallback_error, events')"
  shows "scrape_with selenium fallback url =
           (Inl (Exception (''Failed to extract profile data: '' @ str_exn e)), events @ events')"
  using assms by (simp add: scrape_with_def)

lemma scrape_failure_is_invalid_url:
  assumes "fst (scrape_linkedin_profile http parse b url) = Inl e"
  shows "e = Exception ''Invalid LinkedIn profile URL'' \<and> \<not> is_valid_linkedin_url url"
proof (cases "is_valid_linkedin_url url")
  case True
  then have "scrape_linkedin_profile http parse b url = get_profile_data_with_selenium b url"
    by (simp add: scrape_linkedin_profile_def scrape_with_selenium)
  then show ?thesis
    using assms selenium_returns [of b url] by auto
next
  case False
  then show ?thesis
    using assms by (simp add: scrape_linkedin_profile_def scrape_with_def)
qed

subsection \<open>Placeholders of the browser-driven extractor\<close>

text \<open>
  C8, as amended. The record the browser-driven extractor returns always has a \<open>skills\<close>
  key. When the run reaches the end of the extraction (the browser started, the page
  loaded and the screenshot that follows the extraction did not fail), a skills section
  that could not be located gives \<open>skills = ["No skills information found"]\<close>, and a
  name, headline or about element that could not be located gives \<open>"Not found"\<close> under
  its key.
\<close>

theorem skills_placeholder_when_run_completes:
  "(\<exists>pd. fst (get_profile_data_with_selenium b url) = Inr pd)
   \<and> returned_field (get_profile_data_with_selenium b url) ''skills'' \<noteq> None
   \<and> (chrome_launch b = None \<and> driver_get b url = None \<and> wait_body b = None
        \<and> save_screenshot b = None
      \<longrightarrow> ((\<exists>e. skill_items b = Inl e)
             \<longrightarrow> returned_field (get_profile_data_with_selenium b url) ''skills'' =
                   Some (StrList [''No skills information found'']))
        \<and> ((\<exists>e. name_text b = Inl e)
             \<longrightarrow> returned_field (get_profile_data_with_selenium b url) ''name'' =
                   Some (Str ''Not found''))
        \<and> ((\<exists>e. headline_text b = Inl e)
             \<longrightarrow> returned_field (get_profile_data_with_selenium b url) ''headline'' =
                   Some (Str ''Not found''))
        \<and> ((\<exists>e. about_text b = Inl e)
             \<longrightarrow> returned_field (get_profile_data_with_selenium b url) ''about'' =
                   Some (Str ''Not found'')))"
proof -
  have k: "returned_field (get_profile_data_with_selenium b url) ''skills'' \<noteq> None"
    using selenium_keys [of b url] by (auto simp: returned_field_def)
  have c: "chrome_launch b = None \<and> driver_get b url = None \<and> wait_body b = None
        \<and> save_screenshot b = None
      \<longrightarrow> fst (get_profile_data_with_selenium b url) = Inr (selenium_fields b)"
    by (simp add: selenium_fst selenium_try_def)
  show ?thesis
    using k c selenium_returns [of b url]
    by (auto simp: returned_field_def map_of_selenium_fields list_field_def scalar_field_def
          map_result_def)
qed

theorem skills_placeholder_when_run_completes_witness:
  "returned_field (get_profile_data_with_selenium bare_browser example_url) ''skills'' =
     Some (StrList [''No skills information found''])
   \<and> returned_field (get_profile_data_with_selenium bare_browser example_url) ''name'' =
       Some (Str ''Not found'')
   \<and> returned_field (get_profile_data_with_selenium bare_browser example_url) ''headline'' =
       Some (Str ''Not found'')
   \<and> returned_field (get_profile_data_with_selenium bare_browser example_url) ''about'' =
       Some (Str ''Not found'')"
proof -
  have r: "chrome_launch bare_browser = None \<and> driver_get bare_browser example_url = None
             \<and> wait_body bare_browser = None \<and> save_screenshot bare_browser = None"
    by (simp add: bare_browser_def)
  have s: "\<exists>e. skill_items bare_browser = Inl e" "\<exists>e. name_text bare_browser = Inl e"
    "\<exists>e. headline_text bare_browser = Inl e" "\<exists>e. about_text bare_browser = Inl e"
    by (simp_all add: bare_browser_def)
  show ?thesis
    using skills_placeholder_when_run_completes [of bare_browser example_url] r s by blast
qed

theorem skills_placeholder_counterexample:
  "skill_items crashed_browser = Inl (Exception ''no such element'')
   \<and> about_text crashed_browser = Inl (Exception ''no such element'')
   \<and> returned_field (get_profile_data_with_selenium crashed_browser example_url) ''skills'' =
       Some (StrList [''Unable to retrieve skills information''])
   \<and> returned_field (get_profile_data_with_selenium crashed_browser example_url) ''skills'' \<noteq>
       Some (StrList [''No skills information found''])
   \<and> returned_field (get_profile_data_with_selenium crashed_browser example_url) ''about'' = None"
  by (simp add: returned_field_def get_profile_data_with_selenium_def selenium_try_def
        crashed_browser_def bare_browser_def failure_record_def)

subsection \<open>The block indicators\<close>

lemma raise_for_status_None:
  "\<not> (400 \<le> status_code r \<and> status_code r < 600) \<Longrightarrow> raise_for_status r = None"
  by (auto simp: raise_for_status_def)

lemma check_indicators_find:
  "check_indicators inds page_text =
     map_option (\<lambda>ind. Exception (''Access restricted: '' @ ind @ '' check required''))
       (find (\<lambda>ind. contains ind page_text) inds)"
  by (induction inds) simp_all

lemma verify_text: "lower (get_text verify_doc) = ''adaplease verify you are human''"
  by code_simp

text \<open>
  C6, as amended. For a fetched document of at least 1000 characters whose text contains,
  case-insensitively, one of the block indicators, the static extractor raises
  \<open>Access restricted: <indicator> check required\<close> for the first indicator of the list
  that occurs; no field is extracted, so both definitions of \<open>extract_profile_data\<close>
  give this result.
\<close>

theorem block_indicator_is_access_restricted:
  assumes "http url = Inr response"
    and "status_code response \<noteq> 999"
    and "\<not> (400 \<le> status_code response \<and> status_code response < 600)"
    and "1000 \<le> length (resp_text response)"
    and "list_ex (\<lambda>ind. contains ind (lower (get_text (parse (resp_text response)))))
           error_indicators"
  shows "\<exists>ind. find (\<lambda>ind. contains ind (lower (get_text (parse (resp_text response)))))
                error_indicators = Some ind
           \<and> extract_profile_data http parse b url =
               (Inl (Exception (''Access restricted: '' @ ind @ '' check required'')),
                [HttpGet url, ParseHtml])
           \<and> extract_profile_data_first http parse b url =
               extract_profile_data http parse b url"
proof -
  let ?t = "lower (get_text (parse (resp_text response)))"
  from assms(5) obtain ind where f: "find (\<lambda>ind. contains ind ?t) error_indicators = Some ind"
    by (cases "find (\<lambda>ind. contains ind ?t) error_indicators")
       (auto simp: find_None_iff list_ex_iff)
  have c: "check_indicators error_indicators ?t =
             Some (Exception (''Access restricted: '' @ ind @ '' check required''))"
    by (simp add: check_indicators_find f)
  have t: "\<And>fe. extract_try fe http parse b url =
             (Inl (Exception (''Access restricted: '' @ ind @ '' check required'')),
                [HttpGet url, ParseHtml])"
    using assms(1,2,4) c raise_for_status_None [OF assms(3)]
    by (simp add: extract_try_def Let_def)
  show ?thesis
    using f t by (simp add: extract_profile_data_def extract_profile_data_first_def handle_extract_def)
qed

theorem block_indicator_is_access_restricted_witness:
  "extract_profile_data (\<lambda>u. Inr verify_response) (\<lambda>t. verify_doc) bare_browser example_url =
     (Inl (Exception ''Access restricted: please verify check required''),
      [HttpGet example_url, ParseHtml])"
proof -
  have h: "(\<lambda>u. Inr verify_response) example_url = Inr verify_response"
    by simp
  have s: "status_code verify_response \<noteq> 999"
    "\<not> (400 \<le> status_code verify_response \<and> status_code verify_response < 600)"
    "1000 \<le> length (resp_text verify_response)"
    by (simp_all add: verify_response_def)
  have f: "find (\<lambda>ind. contains ind (lower (get_text ((\<lambda>t. verify_doc) (resp_text verify_response)))))
             error_indicators = Some ''please verify''"
    by (simp add: verify_text error_indicators_def)
  then have e: "list_ex (\<lambda>ind. contains ind (lower (get_text ((\<lambda>t. verify_doc) (resp_text verify_response)))))
           error_indicators"
    by (simp add: verify_text error_indicators_def)
  show ?thesis
    using block_indicator_is_access_restricted [of "\<lambda>u. Inr verify_response" example_url
        verify_response "\<lambda>t. verify_doc" bare_browser, OF h s e] f
    by simp
qed

theorem block_indicator_counterexample:
  "contains ''captcha'' (lower (get_text captcha_doc))
   \<and> extract_profile_data (\<lambda>u. Inr captcha_response) (\<lambda>t. captcha_doc) bare_browser example_url =
       (Inl (Exception ''Invalid response content''), [HttpGet example_url])"
  by (simp add: captcha_doc_def lower_def lower_char_def extract_profile_data_def extract_try_def
        handle_extract_def raise_for_status_def captcha_response_def char_of_def)

subsection \<open>Name extraction in the static extractor\<close>

lemma extract_name_found: "extract_name sels soup True pd = pd"
  by (cases sels) simp_all

lemma extract_name_find:
  "extract_name sels soup False pd =
     (case find (\<lambda>sel. selector_text soup sel \<noteq> []) sels of
        None \<Rightarrow> pd
      | Some sel \<Rightarrow> AList.update ''name'' (Str (selector_text soup sel)) pd)"
  by (induction sels) (auto simp: selector_text_def extract_name_found split: option.splits)

lemma map_of_extract_scalar:
  "key \<noteq> key' \<Longrightarrow> map_of (extract_scalar key sel soup pd) key' = map_of pd key'"
  by (simp add: extract_scalar_def update_conv' split: option.splits)

lemma map_of_extract_fields_name:
  "map_of (extract_fields soup) ''name'' =
     map_option (\<lambda>sel. Str (selector_text soup sel))
       (find (\<lambda>sel. selector_text soup sel \<noteq> []) name_selectors)"
  by (simp add: extract_fields_def Let_def map_of_extract_scalar extract_name_find update_conv'
        split: option.splits)

lemma static_result:
  assumes "http url = Inr response"
    and "status_code response \<noteq> 999"
    and "\<not> (400 \<le> status_code response \<and> status_code response < 600)"
    and "1000 \<le> length (resp_text response)"
    and "\<not> list_ex (\<lambda>ind. contains ind (lower (get_text (parse (resp_text response)))))
             error_indicators"
  shows "handle_extract (extract_try fe http parse b url) =
           (if fe (parse (resp_text response)) = []
            then Inl (Exception ''Failed to extract any profile data'')
            else Inr (fe (parse (resp_text response))),
            [HttpGet url, ParseHtml])"
proof -
  have "find (\<lambda>ind. contains ind (lower (get_text (parse (resp_text response)))))
          error_indicators = None"
    using assms(5) by (simp add: find_None_iff list_ex_iff)
  then have "check_indicators error_indicators (lower (get_text (parse (resp_text response)))) = None"
    by (simp add: check_indicators_find)
  then show ?thesis
    using assms(1,2,4) raise_for_status_None [OF assms(3)]
    by (simp add: extract_try_def handle_extract_def Let_def)
qed

lemma profile_doc_text: "lower (get_text profile_doc) = '' ada lovelace engineeracmeclerk''"
  by code_simp

lemma profile_doc_name:
  "select_one profile_doc [(''h1'', ''text-heading-xlarge'')] =
     Some (Tag ''h1'' None [''text-heading-xlarge''] [NavigableString '' Ada Lovelace ''])"
  by (simp add: select_one_def profile_doc_def)

lemma strip_example: "strip '' Ada Lovelace '' = ''Ada Lovelace''"
  by code_simp

lemma title_doc_text: "lower (get_text title_doc) = ''  grace hopperg. hopper''"
  by code_simp

lemma title_doc_name:
  "map_option (\<lambda>sel. Str (selector_text title_doc sel))
     (find (\<lambda>sel. selector_text title_doc sel \<noteq> [])
        [[(''h1'', ''text-heading-xlarge'')], [(''h1'', ''top-card-layout__title'')],
         [(''h1'', ''basic-info__name'')]]) = Some (Str ''Grace Hopper'')"
  by code_simp

text \<open>
  C7. In the static extractor the name is taken from the first selector of the list
  \<open>h1.text-heading-xlarge\<close>, \<open>h1.top-card-layout__title\<close>, \<open>h1.basic-info__name\<close> that
  yields a non-empty trimmed text, and from no later one: for every fetched page that
  reaches the extraction, the value returned under \<open>name\<close> is that text, and there is
  none exactly when no selector of the list yields text. In particular, when
  \<open>h1.text-heading-xlarge\<close> selects an element with non-empty trimmed text, the extracted
  name is that text.
\<close>

theorem name_is_first_selector_with_text:
  assumes "http url = Inr response"
    and "status_code response \<noteq> 999"
    and "\<not> (400 \<le> status_code response \<and> status_code response < 600)"
    and "1000 \<le> length (resp_text response)"
    and "\<not> list_ex (\<lambda>ind. contains ind (lower (get_text (parse (resp_text response)))))
             error_indicators"
  shows "returned_field (extract_profile_data http parse b url) ''name'' =
           map_option (\<lambda>sel. Str (selector_text (parse (resp_text response)) sel))
             (find (\<lambda>sel. selector_text (parse (resp_text response)) sel \<noteq> [])
                [[(''h1'', ''text-heading-xlarge'')], [(''h1'', ''top-card-layout__title'')],
                 [(''h1'', ''basic-info__name'')]])
         \<and> (\<forall>elem. select_one (parse (resp_text response)) [(''h1'', ''text-heading-xlarge'')] = Some elem
                   \<and> strip (get_text elem) \<noteq> []
              \<longrightarrow> returned_field (extract_profile_data http parse b url) ''name'' =
                    Some (Str (strip (get_text elem))))"
proof -
  let ?soup = "parse (resp_text response)"
  have r: "fst (extract_profile_data http parse b url) =
             (if extract_fields ?soup = [] then Inl (Exception ''Failed to extract any profile data'')
              else Inr (extract_fields ?soup))"
    using static_result [of http url response parse extract_fields b, OF assms] by (simp add: extract_profile_data_def)
  have n: "map_of (extract_fields ?soup) ''name'' =
             map_option (\<lambda>sel. Str (selector_text ?soup sel))
               (find (\<lambda>sel. selector_text ?soup sel \<noteq> [])
                  [[(''h1'', ''text-heading-xlarge'')], [(''h1'', ''top-card-layout__title'')],
                   [(''h1'', ''basic-info__name'')]])"
    using map_of_extract_fields_name [of ?soup] by (simp add: name_selectors_def)
  have first: "returned_field (extract_profile_data http parse b url) ''name'' =
                map_option (\<lambda>sel. Str (selector_text ?soup sel))
                  (find (\<lambda>sel. selector_text ?soup sel \<noteq> [])
                     [[(''h1'', ''text-heading-xlarge'')], [(''h1'', ''top-card-layout__title'')],
                      [(''h1'', ''basic-info__name'')]])"
  proof (cases "extract_fields ?soup = []")
    case True
    then have "map_of (extract_fields ?soup) ''name'' = None"
      by simp
    with n r True show ?thesis
      by (simp add: returned_field_def)
  next
    case False
    with n r show ?thesis
      by (simp add: returned_field_def)
  qed
  have second: "returned_field (extract_profile_data http parse b url) ''name'' =
                    Some (Str (strip (get_text elem)))"
    if e: "select_one ?soup [(''h1'', ''text-heading-xlarge'')] = Some elem"
      and t: "strip (get_text elem) \<noteq> []" for elem
  proof -
    have "selector_text ?soup [(''h1'', ''text-heading-xlarge'')] = strip (get_text elem)"
      using e by (simp add: selector_text_def)
    with t first show ?thesis
      by simp
  qed
  show ?thesis
    using first second by blast
qed

theorem name_is_first_selector_with_text_witness:
  "returned_field
     (extract_profile_data (\<lambda>u. Inr profile_response) (\<lambda>t. profile_doc) bare_browser example_url)
     ''name'' = Some (Str ''Ada Lovelace'')
   \<and> returned_field
       (extract_profile_data (\<lambda>u. Inr title_response) (\<lambda>t. title_doc) bare_browser example_url)
       ''name'' = Some (Str ''Grace Hopper'')"
proof -
  have h: "(\<lambda>u. Inr profile_response) example_url = Inr profile_response"
    by simp
  have s: "status_code profile_response \<noteq> 999"
    "\<not> (400 \<le> status_code profile_response \<and> status_code profile_response < 600)"
    "1000 \<le> length (resp_text profile_response)"
    by (simp_all add: profile_response_def)
  have i: "\<not> list_ex (\<lambda>ind. contains ind (lower (get_text ((\<lambda>t. profile_doc) (resp_text profile_response)))))
             error_indicators"
    by (simp add: profile_doc_text error_indicators_def)
  have e: "select_one ((\<lambda>t. profile_doc) (resp_text profile_response)) [(''h1'', ''text-heading-xlarge'')] =
             Some (Tag ''h1'' None [''text-heading-xlarge''] [NavigableString '' Ada Lovelace ''])
           \<and> strip (get_text (Tag ''h1'' None [''text-heading-xlarge''] [NavigableString '' Ada Lovelace ''])) \<noteq> []"
    by (simp add: profile_doc_name strip_example)
  have ada: "returned_field
     (extract_profile_data (\<lambda>u. Inr profile_response) (\<lambda>t. profile_doc) bare_browser example_url)
     ''name'' = Some (Str ''Ada Lovelace'')"
  proof -
    have "returned_field
       (extract_profile_data (\<lambda>u. Inr profile_response) (\<lambda>t. profile_doc) bare_browser example_url)
       ''name'' =
       Some (Str (strip (get_text (Tag ''h1'' None [''text-heading-xlarge'']
                                     [NavigableString '' Ada Lovelace '']))))"
      using name_is_first_selector_with_text [of "\<lambda>u. Inr profile_response" example_url
          profile_response "\<lambda>t. profile_doc" bare_browser, OF h s i, THEN conjunct2] e
      by blast
    then show ?thesis
      by (simp add: strip_example)
  qed
  have h': "(\<lambda>u. Inr title_response) example_url = Inr title_response"
    by simp
  have s': "status_code title_response \<noteq> 999"
    "\<not> (400 \<le> status_code title_response \<and> status_code title_response < 600)"
    "1000 \<le> length (resp_text title_response)"
    by (simp_all add: title_response_def)
  have i': "\<not> list_ex (\<lambda>ind. contains ind (lower (get_text ((\<lambda>t. title_doc) (resp_text title_response)))))
             error_indicators"
    by (simp add: title_doc_text error_indicators_def)
  have grace: "returned_field
       (extract_profile_data (\<lambda>u. Inr title_response) (\<lambda>t. title_doc) bare_browser example_url)
       ''name'' = Some (Str ''Grace Hopper'')"
  proof -
    have "returned_field
       (extract_profile_data (\<lambda>u. Inr title_response) (\<lambda>t. title_doc) bare_browser example_url)
       ''name'' =
       map_option (\<lambda>sel. Str (selector_text title_doc sel))
         (find (\<lambda>sel. selector_text title_doc sel \<noteq> [])
            [[(''h1'', ''text-heading-xlarge'')], [(''h1'', ''top-card-layout__title'')],
             [(''h1'', ''basic-info__name'')]])"
      by (rule name_is_first_selector_with_text [of "\<lambda>u. Inr title_response" example_url
            title_response "\<lambda>t. title_doc" bare_browser, OF h' s' i', THEN conjunct1])
    then show ?thesis
      by (simp only: title_doc_name)
  qed
  show ?thesis
    using ada grace by simp
qed

subsection \<open>Experience items in the static extractor\<close>

text \<open>
  In the first definition an item contributes its entry exactly when it has both
  sub-elements, so the entries are as many as the items less the incomplete ones. The
  second definition, which is the one \<open>extract_profile_data\<close> names, never sets the key.
\<close>

lemma collect_experience_entries:
  "collect_experience items acc = acc @ concat (map item_entry items)"
  by (induction items arbitrary: acc) (auto simp: item_entry_def split: option.splits)

lemma item_entry_length: "length (item_entry item) = (if item_entry item = [] then 0 else 1)"
  by (simp add: item_entry_def split: option.splits)

lemma collect_experience_count:
  "length (collect_experience items []) + length (filter (\<lambda>item. item_entry item = []) items) =
     length items"
  by (induction items) (auto simp: collect_experience_entries item_entry_length)

lemma map_of_extract_fields_other:
  "key \<noteq> ''name'' \<Longrightarrow> key \<noteq> ''headline'' \<Longrightarrow> key \<noteq> ''about''
     \<Longrightarrow> map_of (extract_fields soup) key = None"
  by (simp add: extract_fields_def Let_def extract_scalar_def extract_name_find update_conv'
        split: option.splits)

lemma static_path_has_no_experience:
  assumes "http url = Inr response" and "status_code response \<noteq> 999"
  shows "returned_field (extract_profile_data http parse b url) ''experience'' = None"
  using assms
  by (auto simp: returned_field_def extract_profile_data_def extract_try_def handle_extract_def
        Let_def map_of_extract_fields_other split: option.splits)

lemma profile_doc_static:
  "handle_extract (extract_try fe (\<lambda>u. Inr profile_response) (\<lambda>t. profile_doc) bare_browser example_url) =
     (if fe profile_doc = [] then Inl (Exception ''Failed to extract any profile data'')
      else Inr (fe profile_doc),
      [HttpGet example_url, ParseHtml])"
proof -
  have h: "(\<lambda>u. Inr profile_response) example_url = Inr profile_response"
    by simp
  have s: "status_code profile_response \<noteq> 999"
    "\<not> (400 \<le> status_code profile_response \<and> status_code profile_response < 600)"
    "1000 \<le> length (resp_text profile_response)"
    by (simp_all add: profile_response_def)
  have i: "\<not> list_ex (\<lambda>ind. contains ind (lower (get_text ((\<lambda>t. profile_doc) (resp_text profile_response)))))
             error_indicators"
    by (simp add: profile_doc_text error_indicators_def)
  show ?thesis
    using static_result [of "\<lambda>u. Inr profile_response" example_url profile_response
        "\<lambda>t. profile_doc" fe bare_browser, OF h s i]
    by simp
qed

lemma profile_doc_fields:
  "extract_fields profile_doc = [(''name'', Str ''Ada Lovelace''), (''headline'', Str [])]"
  by code_simp

lemma profile_doc_fields_first:
  "extract_fields_first profile_doc =
     [(''name'', Str ''Ada Lovelace''), (''headline'', Str []),
      (''experience'', StrList [''Engineer at Acme''])]"
  by code_simp

text \<open>
  C2. On a page whose experience section has one item with a role and a company and one
  item with a role only, the first definition of \<open>extract_profile_data\<close> returns
  \<open>experience = ["Engineer at Acme"]\<close>, as the claim says, while the second definition,
  which shadows it, returns a record with no \<open>experience\<close> key.
\<close>

theorem shadowing_definition_drops_experience:
  "extract_profile_data_first (\<lambda>u. Inr profile_response) (\<lambda>t. profile_doc) bare_browser example_url =
     (Inr [(''name'', Str ''Ada Lovelace''), (''headline'', Str []),
           (''experience'', StrList [''Engineer at Acme''])],
      [HttpGet example_url, ParseHtml])
   \<and> extract_profile_data (\<lambda>u. Inr profile_response) (\<lambda>t. profile_doc) bare_browser example_url =
     (Inr [(''name'', Str ''Ada Lovelace''), (''headline'', Str [])],
      [HttpGet example_url, ParseHtml])
   \<and> returned_field
        (extract_profile_data (\<lambda>u. Inr profile_response) (\<lambda>t. profile_doc) bare_browser example_url)
        ''experience'' = None"
  by (simp add: extract_profile_data_def extract_profile_data_first_def profile_doc_static
        profile_doc_fields profile_doc_fields_first returned_field_def)

subsection \<open>Empty fields\<close>

text \<open>
  C9. A present field can be empty: the static extractor stores the headline of an
  element with no text as the empty string, and the browser-driven extractor stores the
  name of an element whose text is blank as the empty string.
\<close>

theorem present_fields_can_be_empty:
  "returned_field
     (extract_profile_data (\<lambda>u. Inr profile_response) (\<lambda>t. profile_doc) bare_browser example_url)
     ''headline'' = Some (Str [])
   \<and> name_text blank_name_browser = Inr ''  ''
   \<and> returned_field (get_profile_data_with_selenium blank_name_browser example_url) ''name'' =
       Some (Str [])"
proof -
  have "strip ''  '' = []"
    by code_simp
  then have "returned_field (get_profile_data_with_selenium blank_name_browser example_url) ''name'' =
       Some (Str [])"
    by (simp add: returned_field_def selenium_fst selenium_try_def blank_name_browser_def
          bare_browser_def map_of_selenium_fields scalar_field_def)
  then show ?thesis
    by (simp add: extract_profile_data_def profile_doc_static profile_doc_fields returned_field_def
          blank_name_browser_def)
qed

subsection \<open>The URL validator\<close>

text \<open>
  What the pattern accepts, layer by layer, and how it compares with the shape of the
  specification: \<open>is_valid_linkedin_url\<close> holds for every URL of that shape, and besides
  for such a URL followed by one newline, since \<open>$\<close> also matches just before a
  newline that ends the string.
\<close>

lemma in_slug_class: "in_class slug_class c = slug_char c"
  by (auto simp: in_class_def slug_class_def slug_char_def Let_def)

lemma rx_match_lit:
  "rx_match (lit p @ k) bol s = (\<exists>rest. s = p @ rest \<and> rx_match k (bol \<and> p = []) rest)"
proof (induction p arbitrary: bol s)
  case Nil
  then show ?case by (simp add: lit_def)
next
  case (Cons c p)
  have l: "lit (c # p) @ k = Chr c # (lit p @ k)"
    by (simp add: lit_def)
  show ?case
  proof (cases s)
    case Nil
    then show ?thesis by (simp add: l)
  next
    case (Cons x xs)
    then show ?thesis
      using Cons.IH [of False xs] by (auto simp: l)
  qed
qed

lemma rx_match_tail:
  "rx_match [Opt (Chr CHR ''/''), Eol] bol s =
     (s = [] \<or> s = ''/'' \<or> s = [newline] \<or> s = ''/'' @ [newline])"
proof (cases s)
  case Nil
  then show ?thesis by simp
next
  case (Cons x xs)
  then show ?thesis by (cases xs) (auto simp: newline_def)
qed

lemma rx_match_slug:
  "rx_match [PlusCls slug_class, Opt (Chr CHR ''/''), Eol] bol s =
     (\<exists>slug tail. s = slug @ tail \<and> slug \<noteq> [] \<and> list_all slug_char slug
        \<and> (tail = [] \<or> tail = ''/'' \<or> tail = [newline] \<or> tail = ''/'' @ [newline]))"
proof (induction s arbitrary: bol)
  case Nil
  then show ?case by simp
next
  case (Cons x xs)
  show ?case
  proof
    assume "rx_match [PlusCls slug_class, Opt (Chr CHR ''/''), Eol] bol (x # xs)"
    then have x: "slug_char x"
      and d: "rx_match [PlusCls slug_class, Opt (Chr CHR ''/''), Eol] False xs
              \<or> rx_match [Opt (Chr CHR ''/''), Eol] False xs"
      by (simp_all add: in_slug_class)
    from d show "\<exists>slug tail. x # xs = slug @ tail \<and> slug \<noteq> [] \<and> list_all slug_char slug
        \<and> (tail = [] \<or> tail = ''/'' \<or> tail = [newline] \<or> tail = ''/'' @ [newline])"
    proof
      assume "rx_match [PlusCls slug_class, Opt (Chr CHR ''/''), Eol] False xs"
      then obtain slug tail where "xs = slug @ tail" "slug \<noteq> []" "list_all slug_char slug"
        "tail = [] \<or> tail = ''/'' \<or> tail = [newline] \<or> tail = ''/'' @ [newline]"
        using Cons.IH [of False] by blast
      then show ?thesis
        using x by (intro exI [of _ "x # slug"] exI [of _ tail]) simp
    next
      assume "rx_match [Opt (Chr CHR ''/''), Eol] False xs"
      then have "xs = [] \<or> xs = ''/'' \<or> xs = [newline] \<or> xs = ''/'' @ [newline]"
        by (simp only: rx_match_tail)
      then show ?thesis
        using x by (intro exI [of _ "[x]"] exI [of _ xs]) simp
    qed
  next
    assume "\<exists>slug tail. x # xs = slug @ tail \<and> slug \<noteq> [] \<and> list_all slug_char slug
        \<and> (tail = [] \<or> tail = ''/'' \<or> tail = [newline] \<or> tail = ''/'' @ [newline])"
    then obtain slug tail where s: "x # xs = slug @ tail" "slug \<noteq> []" "list_all slug_char slug"
      and t: "tail = [] \<or> tail = ''/'' \<or> tail = [newline] \<or> tail = ''/'' @ [newline]"
      by blast
    from s obtain slug' where sl: "slug = x # slug'" "xs = slug' @ tail"
      by (cases slug) auto
    have x: "slug_char x"
      using s(3) sl(1) by simp
    show "rx_match [PlusCls slug_class, Opt (Chr CHR ''/''), Eol] bol (x # xs)"
    proof (cases "slug' = []")
      case True
      then have "rx_match [Opt (Chr CHR ''/''), Eol] False xs"
        using t sl(2) by (simp only: rx_match_tail) simp
      then show ?thesis
        using x by (simp add: in_slug_class)
    next
      case False
      then have "rx_match [PlusCls slug_class, Opt (Chr CHR ''/''), Eol] False xs"
        using Cons.IH [of False] s(3) sl t by auto
      then show ?thesis
        using x by (simp add: in_slug_class)
    qed
  qed
qed


lemma rx_match_Chr:
  "rx_match (Chr c # k) bol s = (\<exists>rest. s = c # rest \<and> rx_match k False rest)"
  by (cases s) auto

lemma linkedin_pattern_unfold:
  "linkedin_pattern =
     Bol # (lit ''http'' @ (Opt (Chr CHR ''s'') # (lit ''://'' @ (Opt (Grp (lit ''www.''))
       # (lit ''linkedin.com/in/'' @ [PlusCls slug_class, Opt (Chr CHR ''/''), Eol])))))"
  by (simp add: linkedin_pattern_def slug_class_def)

lemma rx_match_profile_tail:
  "rx_match [PlusCls slug_class, Opt (Chr CHR ''/''), Eol] bol s = url_tail s"
  by (simp only: rx_match_slug url_tail_def)

lemma prefix_step2:
  "(\<exists>r. s = p @ r \<and> (\<exists>q. (r = a @ q \<or> r = b @ q) \<and> T q)) =
     (\<exists>q. (s = (p @ a) @ q \<or> s = (p @ b) @ q) \<and> T q)"
  by auto

lemma prefix_step4:
  "(\<exists>r. s = p @ r \<and> (\<exists>q. (r = a @ q \<or> r = b @ q \<or> r = c @ q \<or> r = d @ q) \<and> T q)) =
     (\<exists>q. (s = (p @ a) @ q \<or> s = (p @ b) @ q \<or> s = (p @ c) @ q \<or> s = (p @ d) @ q) \<and> T q)"
  by auto

lemma prefix_join:
  "((\<exists>q. (s = a @ q \<or> s = b @ q) \<and> T q) \<or> (\<exists>q. (s = c @ q \<or> s = d @ q) \<and> T q)) =
     (\<exists>q. (s = c @ q \<or> s = d @ q \<or> s = a @ q \<or> s = b @ q) \<and> T q)"
  by blast

lemma prefix_opt:
  "((\<exists>r. s = p @ r \<and> (\<exists>q. r = a @ q \<and> T q)) \<or> (\<exists>q. s = a @ q \<and> T q)) =
     (\<exists>q. (s = a @ q \<or> s = (p @ a) @ q) \<and> T q)"
  by auto

lemma rx_match_www:
  "rx_match (Opt (Grp (lit ''www.'')) # (lit ''linkedin.com/in/'' @ [PlusCls slug_class, Opt (Chr CHR ''/''), Eol])) bol s =
     (\<exists>q. (s = ''linkedin.com/in/'' @ q \<or> s = ''www.linkedin.com/in/'' @ q) \<and> url_tail q)"
proof -
  have "rx_match (Opt (Grp (lit ''www.'')) # (lit ''linkedin.com/in/'' @ [PlusCls slug_class, Opt (Chr CHR ''/''), Eol])) bol s =
     ((\<exists>r. s = ''www.'' @ r \<and> (\<exists>q. r = ''linkedin.com/in/'' @ q \<and> url_tail q))
      \<or> (\<exists>q. s = ''linkedin.com/in/'' @ q \<and> url_tail q))"
    by (simp only: rx_match.simps rx_match_lit rx_match_profile_tail)
  then show ?thesis
    unfolding prefix_opt by simp
qed

lemma rx_match_separator:
  "rx_match (lit ''://'' @ (Opt (Grp (lit ''www.'')) # (lit ''linkedin.com/in/'' @ [PlusCls slug_class, Opt (Chr CHR ''/''), Eol]))) bol s =
     (\<exists>q. (s = ''://linkedin.com/in/'' @ q \<or> s = ''://www.linkedin.com/in/'' @ q) \<and> url_tail q)"
proof -
  have "rx_match (lit ''://'' @ (Opt (Grp (lit ''www.'')) # (lit ''linkedin.com/in/'' @ [PlusCls slug_class, Opt (Chr CHR ''/''), Eol]))) bol s =
     (\<exists>r. s = ''://'' @ r
        \<and> (\<exists>q. (r = ''linkedin.com/in/'' @ q \<or> r = ''www.linkedin.com/in/'' @ q) \<and> url_tail q))"
    by (simp only: rx_match_lit rx_match_www)
  then show ?thesis
    unfolding prefix_step2 by simp
qed

lemma rx_match_scheme:
  "rx_match (Opt (Chr CHR ''s'') # (lit ''://'' @ (Opt (Grp (lit ''www.'')) # (lit ''linkedin.com/in/'' @ [PlusCls slug_class, Opt (Chr CHR ''/''), Eol])))) bol s =
     (\<exists>q. (s = ''://linkedin.com/in/'' @ q \<or> s = ''://www.linkedin.com/in/'' @ q
           \<or> s = ''s://linkedin.com/in/'' @ q \<or> s = ''s://www.linkedin.com/in/'' @ q) \<and> url_tail q)"
proof -
  have "rx_match (Opt (Chr CHR ''s'') # (lit ''://'' @ (Opt (Grp (lit ''www.'')) # (lit ''linkedin.com/in/'' @ [PlusCls slug_class, Opt (Chr CHR ''/''), Eol])))) bol s =
     ((\<exists>r. s = ''s'' @ r
        \<and> (\<exists>q. (r = ''://linkedin.com/in/'' @ q \<or> r = ''://www.linkedin.com/in/'' @ q) \<and> url_tail q))
      \<or> (\<exists>q. (s = ''://linkedin.com/in/'' @ q \<or> s = ''://www.linkedin.com/in/'' @ q) \<and> url_tail q))"
    by (simp only: rx_match.simps(10) rx_match_Chr rx_match_separator append.simps)
  then show ?thesis
    unfolding prefix_step2 prefix_join by simp
qed

lemma is_valid_linkedin_url_prefixes:
  "is_valid_linkedin_url url =
     (\<exists>q. (url = ''http://linkedin.com/in/'' @ q \<or> url = ''http://www.linkedin.com/in/'' @ q
           \<or> url = ''https://linkedin.com/in/'' @ q \<or> url = ''https://www.linkedin.com/in/'' @ q)
        \<and> url_tail q)"
proof -
  have "is_valid_linkedin_url url =
     (\<exists>r. url = ''http'' @ r
        \<and> (\<exists>q. (r = ''://linkedin.com/in/'' @ q \<or> r = ''://www.linkedin.com/in/'' @ q
           \<or> r = ''s://linkedin.com/in/'' @ q \<or> r = ''s://www.linkedin.com/in/'' @ q) \<and> url_tail q))"
    unfolding is_valid_linkedin_url_def linkedin_pattern_unfold
    by (simp only: rx_match.simps(2) rx_match_lit rx_match_scheme simp_thms)
  then show ?thesis
    unfolding prefix_step4 by simp
qed


lemma shape_abstract:
  "(\<exists>scheme www slug slash.
        url = scheme @ sep @ www @ host @ slug @ slash
        \<and> (scheme = a \<or> scheme = b) \<and> (www = [] \<or> www = w) \<and> A slug \<and> B slash) =
   (\<exists>q. (url = (a @ sep @ host) @ q \<or> url = (a @ sep @ w @ host) @ q
         \<or> url = (b @ sep @ host) @ q \<or> url = (b @ sep @ w @ host) @ q)
      \<and> (\<exists>slug slash. q = slug @ slash \<and> A slug \<and> B slash))"
  by (rule iffI; elim exE conjE disjE; simp; blast)


lemma profile_url_shape_prefixes:
  "profile_url_shape url =
     (\<exists>q. (url = ''http://linkedin.com/in/'' @ q \<or> url = ''http://www.linkedin.com/in/'' @ q
           \<or> url = ''https://linkedin.com/in/'' @ q \<or> url = ''https://www.linkedin.com/in/'' @ q)
        \<and> spec_tail q)"
proof -
  have "profile_url_shape url =
     (\<exists>scheme www slug slash.
        url = scheme @ ''://'' @ www @ ''linkedin.com/in/'' @ slug @ slash
        \<and> (scheme = ''http'' \<or> scheme = ''https'') \<and> (www = [] \<or> www = ''www.'')
        \<and> (slug \<noteq> [] \<and> list_all slug_char slug) \<and> (slash = [] \<or> slash = ''/''))"
    by (simp only: profile_url_shape_def conj_assoc)
  then show ?thesis
    unfolding shape_abstract spec_tail_def by (simp add: conj_assoc)
qed


lemma tail_abstract:
  "(\<exists>slug tail. q = slug @ tail \<and> A slug
      \<and> (tail = [] \<or> tail = s \<or> tail = n \<or> tail = s @ n)) =
   ((\<exists>slug slash. q = slug @ slash \<and> A slug \<and> (slash = [] \<or> slash = s))
    \<or> (\<exists>q'. q = q' @ n
          \<and> (\<exists>slug slash. q' = slug @ slash \<and> A slug \<and> (slash = [] \<or> slash = s))))"
proof
  assume "\<exists>slug tail. q = slug @ tail \<and> A slug
      \<and> (tail = [] \<or> tail = s \<or> tail = n \<or> tail = s @ n)"
  then obtain slug tail where q: "q = slug @ tail" and a: "A slug"
    and t: "tail = [] \<or> tail = s \<or> tail = n \<or> tail = s @ n"
    by blast
  from t consider "tail = [] \<or> tail = s" | "tail = n" | "tail = s @ n"
    by blast
  then show "(\<exists>slug slash. q = slug @ slash \<and> A slug \<and> (slash = [] \<or> slash = s))
    \<or> (\<exists>q'. q = q' @ n
          \<and> (\<exists>slug slash. q' = slug @ slash \<and> A slug \<and> (slash = [] \<or> slash = s)))"
  proof cases
    case 1
    then show ?thesis using q a by blast
  next
    case 2
    have "q = (slug @ []) @ n" using q 2 by simp
    then show ?thesis using a by blast
  next
    case 3
    have "q = (slug @ s) @ n" using q 3 by simp
    then show ?thesis using a by blast
  qed
next
  assume "(\<exists>slug slash. q = slug @ slash \<and> A slug \<and> (slash = [] \<or> slash = s))
    \<or> (\<exists>q'. q = q' @ n
          \<and> (\<exists>slug slash. q' = slug @ slash \<and> A slug \<and> (slash = [] \<or> slash = s)))"
  then show "\<exists>slug tail. q = slug @ tail \<and> A slug
      \<and> (tail = [] \<or> tail = s \<or> tail = n \<or> tail = s @ n)"
  proof
    assume "\<exists>slug slash. q = slug @ slash \<and> A slug \<and> (slash = [] \<or> slash = s)"
    then show ?thesis by blast
  next
    assume "\<exists>q'. q = q' @ n
          \<and> (\<exists>slug slash. q' = slug @ slash \<and> A slug \<and> (slash = [] \<or> slash = s))"
    then obtain slug slash where q: "q = (slug @ slash) @ n" and a: "A slug"
      and sl: "slash = [] \<or> slash = s"
      by blast
    from q have "q = slug @ (slash @ n)" by simp
    moreover have "slash @ n = n \<or> slash @ n = s @ n" using sl by auto
    ultimately show ?thesis using a by blast
  qed
qed

lemma url_tail_spec:
  "url_tail q = (spec_tail q \<or> (\<exists>q'. q = q' @ [newline] \<and> spec_tail q'))"
  unfolding url_tail_def spec_tail_def
  using tail_abstract [of q "\<lambda>slug. slug \<noteq> [] \<and> list_all slug_char slug" "''/''" "[newline]"]
  by (simp only: conj_assoc)

lemma profile_url_shape_no_newline:
  assumes "profile_url_shape url"
  shows "newline \<notin> set url"
proof -
  have "\<not> slug_char newline"
    by (simp add: slug_char_def newline_def)
  then have "\<And>slug. list_all slug_char slug \<Longrightarrow> newline \<notin> set slug"
    by (auto simp: list_all_iff)
  then show ?thesis
    using assms unfolding profile_url_shape_def by (auto simp: newline_def)
qed


lemma newline_abstract:
  "(\<exists>q. (url = a @ q \<or> url = b @ q \<or> url = c @ q \<or> url = d @ q)
        \<and> (S q \<or> (\<exists>q'. q = q' @ n \<and> S q'))) =
   ((\<exists>q. (url = a @ q \<or> url = b @ q \<or> url = c @ q \<or> url = d @ q) \<and> S q)
    \<or> (\<exists>u. url = u @ n
          \<and> (\<exists>q. (u = a @ q \<or> u = b @ q \<or> u = c @ q \<or> u = d @ q) \<and> S q)))"
proof -
  have e: "(\<exists>u. url = u @ n \<and> (\<exists>q. (u = a @ q \<or> u = b @ q \<or> u = c @ q \<or> u = d @ q) \<and> S q)) =
           (\<exists>q. (url = a @ q @ n \<or> url = b @ q @ n \<or> url = c @ q @ n \<or> url = d @ q @ n) \<and> S q)"
    by auto
  have f: "(\<exists>q. (url = a @ q \<or> url = b @ q \<or> url = c @ q \<or> url = d @ q)
        \<and> (\<exists>q'. q = q' @ n \<and> S q')) =
           (\<exists>q. (url = a @ q @ n \<or> url = b @ q @ n \<or> url = c @ q @ n \<or> url = d @ q @ n) \<and> S q)"
    by auto
  show ?thesis
    unfolding e f [symmetric] by blast
qed

lemma is_valid_linkedin_url_shape:
  "is_valid_linkedin_url url =
     (profile_url_shape url \<or> (\<exists>u. url = u @ [newline] \<and> profile_url_shape u))"
  unfolding is_valid_linkedin_url_prefixes profile_url_shape_prefixes url_tail_spec
  by (rule newline_abstract)


lemma example_url_shape: "profile_url_shape example_url"
  unfolding profile_url_shape_def
  by (rule exI [of _ "''https''"], rule exI [of _ "''www.''"], rule exI [of _ "''ada-lovelace''"],
      rule exI [of _ "[]"])
     (simp add: example_url_def slug_char_def)

lemma invalid_url_fails_fast:
  "\<not> is_valid_linkedin_url url \<Longrightarrow>
     scrape_linkedin_profile http parse b url = (Inl (Exception ''Invalid LinkedIn profile URL''), [])"
  by (simp add: scrape_linkedin_profile_def scrape_with_def)

lemma profile_url_shape_valid: "profile_url_shape url \<Longrightarrow> is_valid_linkedin_url url"
  by (simp add: is_valid_linkedin_url_shape)

text \<open>
  C3. A profile URL followed by a newline is not of the shape
  \<open>(http|https)://(www.)?linkedin.com/in/<slug>(/)?\<close> anchored at both ends, yet
  \<open>is_valid_linkedin_url\<close> accepts it, and \<open>scrape_linkedin_profile\<close> does not raise the
  invalid-URL failure for it but starts the browser and navigates to it.
\<close>

theorem trailing_newline_passes_validation:
  "is_valid_linkedin_url (example_url @ [newline])
   \<and> \<not> profile_url_shape (example_url @ [newline])
   \<and> fst (scrape_linkedin_profile (\<lambda>u. Inr short_response) NavigableString bare_browser
            (example_url @ [newline]))
       \<noteq> Inl (Exception ''Invalid LinkedIn profile URL'')
   \<and> snd (scrape_linkedin_profile (\<lambda>u. Inr short_response) NavigableString bare_browser
            (example_url @ [newline]))
       = [BrowserLaunch, BrowserGet (example_url @ [newline]), BrowserScreenshot, BrowserQuit]"
proof -
  have v: "is_valid_linkedin_url (example_url @ [newline])"
    using example_url_shape by (auto simp: is_valid_linkedin_url_shape)
  have n: "\<not> profile_url_shape (example_url @ [newline])"
    using profile_url_shape_no_newline [of "example_url @ [newline]"] by auto
  have s: "scrape_linkedin_profile (\<lambda>u. Inr short_response) NavigableString bare_browser
             (example_url @ [newline]) =
           get_profile_data_with_selenium bare_browser (example_url @ [newline])"
    using v by (simp add: scrape_linkedin_profile_def scrape_with_selenium)
  have g: "get_profile_data_with_selenium bare_browser (example_url @ [newline]) =
             (Inr (selenium_fields bare_browser),
              [BrowserLaunch, BrowserGet (example_url @ [newline]), BrowserScreenshot, BrowserQuit])"
    by (simp add: get_profile_data_with_selenium_def selenium_try_def bare_browser_def)
  show ?thesis
    using v n by (simp add: s g)
qed

end
